theory Spec2Isabelle
  imports Complex_Main
begin

section \<open>The VAE and clustering stage of the DeepSea-AI pipeline\<close>

text \<open>
  This theory embeds \<^verbatim>\<open>src/pipeline/scripts/vae_cluster.py\<close>. Tensors and arrays are
  lists (a matrix is a list of rows). The script computes in IEEE floating point; the
  embedding computes in the real numbers, so rounding, overflow and NaN are outside the
  model, except where the source tests for them: there the value carries the case
  (\<open>npfloat\<close>, the NaN of the explained variance).
  Random draws (\<^verbatim>\<open>torch.randn_like\<close>) are arguments of the functions that consume them.
  Calls into torch's optimiser, scikit-learn, umap and hdbscan are parameters that may
  raise.
\<close>

type_synonym vec = "real list"
type_synonym matrix = "real list list"

subsection \<open>Config / Params\<close>

definition latent_dim :: nat where "latent_dim = 16"
definition hidden_dim :: nat where "hidden_dim = 256"
definition batch_size :: nat where "batch_size = 128"
definition epochs :: nat where "epochs = 50"
definition beta_final :: real where "beta_final = 10"
definition beta_warmup_epochs :: nat where "beta_warmup_epochs = 10"
definition pca_components :: nat where "pca_components = 5"
definition umap_components :: nat where "umap_components = 10"
definition input_noise_std :: real where "input_noise_std = 1 / 100"
definition hdbscan_min_cluster_size :: nat where "hdbscan_min_cluster_size = 30"
definition hdbscan_min_samples :: nat where "hdbscan_min_samples = 10"

subsection \<open>Errors\<close>

datatype error =
  ValueError
  | IndexError
  | ZeroDivisionError
  | LibraryError string
  | SystemExit nat

subsection \<open>The linear beta schedule\<close>

text \<open>
  Lines 267-271, with the two module constants the branch reads as arguments:
  \<^verbatim>\<open>
  if epoch <= beta_warmup_epochs and beta_warmup_epochs > 0:
      beta = float(epoch) / float(beta_warmup_epochs) * beta_final
  else:
      beta = beta_final
  \<close>
\<close>

definition beta_schedule :: "nat \<Rightarrow> real \<Rightarrow> nat \<Rightarrow> real" where
  "beta_schedule W bf epoch =
     (if epoch \<le> W \<and> W > 0 then real epoch / real W * bf else bf)"


subsection \<open>The per-epoch averages\<close>

text \<open>Python's \<^verbatim>\<open>/\<close> raises on a zero denominator; HOL's does not.\<close>

definition py_div :: "real \<Rightarrow> nat \<Rightarrow> error + real" where
  "py_div a n = (if n = 0 then Inl ZeroDivisionError else Inr (a / real n))"

record totals =
  total_recon :: real
  total_kld :: real
  total_loss :: real
  n_batches :: nat

definition totals0 :: totals where
  "totals0 = \<lparr>total_recon = 0, total_kld = 0, total_loss = 0, n_batches = 0\<rparr>"

text \<open>
  Lines 292-295: what one minibatch adds to the running totals, given the three
  scalars \<^verbatim>\<open>recon_loss.item()\<close>, \<^verbatim>\<open>kld.item()\<close>, \<^verbatim>\<open>loss.item()\<close> of that minibatch.
\<close>

definition accumulate :: "totals \<Rightarrow> real \<times> real \<times> real \<Rightarrow> totals" where
  "accumulate t b =
     (case b of (r, k, l) \<Rightarrow>
        \<lparr>total_recon = total_recon t + r, total_kld = total_kld t + k,
         total_loss = total_loss t + l, n_batches = n_batches t + 1\<rparr>)"

text \<open>The loop over the loader's minibatches (line 273), on the totals only.\<close>

fun run_batches :: "totals \<Rightarrow> (real \<times> real \<times> real) list \<Rightarrow> totals" where
  "run_batches t [] = t"
| "run_batches t (b # bs) = run_batches (accumulate t b) bs"

text \<open>Lines 297-299: \<^verbatim>\<open>avg_recon\<close>, \<^verbatim>\<open>avg_kld\<close>, \<^verbatim>\<open>avg_loss\<close>.\<close>

definition epoch_averages :: "totals \<Rightarrow> error + (real \<times> real \<times> real)" where
  "epoch_averages t =
     (case py_div (total_recon t) (max 1 (n_batches t)) of
        Inl e \<Rightarrow> Inl e
      | Inr avg_recon \<Rightarrow>
          (case py_div (total_kld t) (max 1 (n_batches t)) of
             Inl e \<Rightarrow> Inl e
           | Inr avg_kld \<Rightarrow>
               (case py_div (total_loss t) (max 1 (n_batches t)) of
                  Inl e \<Rightarrow> Inl e
                | Inr avg_loss \<Rightarrow> Inr (avg_recon, avg_kld, avg_loss))))"

definition epoch_summary :: "(real \<times> real \<times> real) list \<Rightarrow> error + (real \<times> real \<times> real)" where
  "epoch_summary bs = epoch_averages (run_batches totals0 bs)"

subsection \<open>Tensor operations\<close>

text \<open>
  Elementwise operations on a batch. The operands of a binary operation have the same
  shape wherever the script applies one (\<^verbatim>\<open>randn_like\<close>, the two heads of the encoder,
  the reconstruction and its input); the theorems below state the shapes they rely on.
\<close>

definition ew1 :: "(real \<Rightarrow> real) \<Rightarrow> matrix \<Rightarrow> matrix" where
  "ew1 f X = map (map f) X"

definition ew2 :: "(real \<Rightarrow> real \<Rightarrow> real) \<Rightarrow> matrix \<Rightarrow> matrix \<Rightarrow> matrix" where
  "ew2 f X Y = map2 (map2 f) X Y"

text \<open>\<^verbatim>\<open>torch.clamp(x, min=lo, max=hi)\<close> is \<^verbatim>\<open>min(max(x, lo), hi)\<close>.\<close>

definition clamp :: "real \<Rightarrow> real \<Rightarrow> real \<Rightarrow> real" where
  "clamp x lo hi = min (max x lo) hi"

text \<open>
  \<^verbatim>\<open>mean\<close> of a tensor along one axis. torch gives NaN on an empty axis; the script
  never takes one there (no minibatch is empty, and a row has the input's width).
\<close>

definition mean :: "real list \<Rightarrow> real" where
  "mean xs = sum_list xs / real (length xs)"

subsection \<open>The VAE\<close>

text \<open>
  \<^verbatim>\<open>nn.Linear(n_in, n_out)\<close> holds a weight of \<open>n_out\<close> rows of width \<open>n_in\<close> and a bias of
  width \<open>n_out\<close>; on a batch it maps every row \<open>x\<close> to \<open>W x + b\<close>.
\<close>

type_synonym linear = "matrix \<times> vec"

definition affine :: "linear \<Rightarrow> vec \<Rightarrow> vec" where
  "affine l x = map2 (+) (map (\<lambda>w. sum_list (map2 (*) w x)) (fst l)) (snd l)"

definition apply_linear :: "linear \<Rightarrow> matrix \<Rightarrow> matrix" where
  "apply_linear l X = map (affine l) X"

definition relu :: "matrix \<Rightarrow> matrix" where
  "relu X = ew1 (max 0) X"

record vae =
  fc1 :: linear
  fc_mu :: linear
  fc_logvar :: linear
  fc2 :: linear
  fc3 :: linear

text \<open>The shapes \<^verbatim>\<open>VAE.__init__\<close> gives the five layers (lines 211-215).\<close>

definition linear_shape :: "nat \<Rightarrow> nat \<Rightarrow> linear \<Rightarrow> bool" where
  "linear_shape n_in n_out l =
     (length (fst l) = n_out \<and> list_all (\<lambda>w. length w = n_in) (fst l)
      \<and> length (snd l) = n_out)"

definition vae_shape :: "nat \<Rightarrow> nat \<Rightarrow> nat \<Rightarrow> vae \<Rightarrow> bool" where
  "vae_shape input_dim hidden latent v =
     (linear_shape input_dim hidden (fc1 v)
      \<and> linear_shape hidden latent (fc_mu v)
      \<and> linear_shape hidden latent (fc_logvar v)
      \<and> linear_shape latent hidden (fc2 v)
      \<and> linear_shape hidden input_dim (fc3 v))"

text \<open>A batch of \<open>n\<close> rows of width \<open>d\<close>.\<close>

definition has_shape :: "nat \<Rightarrow> nat \<Rightarrow> matrix \<Rightarrow> bool" where
  "has_shape n d X = (length X = n \<and> list_all (\<lambda>r. length r = d) X)"

definition encode :: "vae \<Rightarrow> matrix \<Rightarrow> matrix \<times> matrix" where
  "encode v x =
     (let h = relu (apply_linear (fc1 v) x)
      in (apply_linear (fc_mu v) h, apply_linear (fc_logvar v) h))"

text \<open>
  Lines 228-232. \<open>eps\<close> is the draw of \<^verbatim>\<open>torch.randn_like(std)\<close>, a tensor of the shape
  of \<open>std\<close>.
\<close>

definition reparameterize :: "matrix \<Rightarrow> matrix \<Rightarrow> matrix \<Rightarrow> matrix" where
  "reparameterize mu logvar eps =
     (let logvar' = ew1 (\<lambda>l. clamp l (- 20) 20) logvar;
          std = ew1 (\<lambda>l. exp (0.5 * l)) logvar'
      in ew2 (+) mu (ew2 (*) eps std))"

definition decode :: "vae \<Rightarrow> matrix \<Rightarrow> matrix" where
  "decode v z = (let h = relu (apply_linear (fc2 v) z) in apply_linear (fc3 v) h)"

definition forward :: "vae \<Rightarrow> matrix \<Rightarrow> matrix \<Rightarrow> matrix \<times> matrix \<times> matrix" where
  "forward v x eps =
     (case encode v x of (mu, logvar) \<Rightarrow>
        (let z = reparameterize mu logvar eps;
             x_recon = decode v z
         in (x_recon, mu, logvar)))"

subsection \<open>The losses of a minibatch\<close>

text \<open>Lines 244-251.\<close>

definition vae_losses :: "matrix \<Rightarrow> matrix \<Rightarrow> matrix \<Rightarrow> matrix \<Rightarrow> real \<times> real \<times> vec" where
  "vae_losses x x_recon mu logvar =
     (let recon_per_sample = map mean (ew2 (\<lambda>r a. (r - a)\<^sup>2) x_recon x);
          recon_loss = mean recon_per_sample;
          kld_per_sample =
            map (\<lambda>t. - 0.5 * sum_list t)
              (ew2 (\<lambda>m l. 1 + l - m\<^sup>2 - exp l) mu logvar);
          kld = mean kld_per_sample
      in (recon_loss, kld, recon_per_sample))"

text \<open>
  Lines 276-281: \<open>randn\<close> is the draw of \<^verbatim>\<open>torch.randn_like(x_batch)\<close>.
\<close>

definition add_input_noise :: "matrix \<Rightarrow> matrix \<Rightarrow> matrix" where
  "add_input_noise x_batch randn =
     (if input_noise_std > 0
      then (let noise = ew1 (\<lambda>r. r * input_noise_std) randn in ew2 (+) x_batch noise)
      else x_batch)"

text \<open>
  Lines 284-287: the three scalars of one minibatch, the last of which is the loss that
  is backpropagated.
\<close>

definition minibatch_loss :: "vae \<Rightarrow> real \<Rightarrow> matrix \<Rightarrow> matrix \<Rightarrow> matrix \<Rightarrow> real \<times> real \<times> real" where
  "minibatch_loss v b x_batch randn eps =
     (let x_noisy = add_input_noise x_batch randn
      in case forward v x_noisy eps of (x_recon, mu, logvar) \<Rightarrow>
           (case vae_losses x_batch x_recon mu logvar of (recon_loss, kld, _) \<Rightarrow>
              (let loss = recon_loss + b * kld in (recon_loss, kld, loss))))"

subsection \<open>The training loop\<close>

text \<open>
  Lines 260-299. A minibatch comes with the two draws made for it (the input noise and
  the noise of the sampling), and \<open>loader epoch\<close> is the shuffled list of minibatches of
  an epoch. \<open>opt v b batch\<close> is the model after \<^verbatim>\<open>loss.backward()\<close>, the clipping of the
  gradient and \<^verbatim>\<open>optimizer.step()\<close> on that minibatch. The loop keeps, for every epoch, the
  values of \<^verbatim>\<open>epoch\<close>, \<^verbatim>\<open>beta\<close>, \<^verbatim>\<open>avg_recon\<close>, \<^verbatim>\<open>avg_kld\<close> and \<^verbatim>\<open>avg_loss\<close> it ends with.
\<close>

type_synonym batch = "matrix \<times> matrix \<times> matrix"
type_synonym optimizer = "vae \<Rightarrow> real \<Rightarrow> batch \<Rightarrow> vae"
type_synonym epoch_vars = "nat \<times> real \<times> real \<times> real \<times> real"

fun train_batches :: "optimizer \<Rightarrow> real \<Rightarrow> vae \<Rightarrow> totals \<Rightarrow> batch list \<Rightarrow> vae \<times> totals" where
  "train_batches opt b v t [] = (v, t)"
| "train_batches opt b v t (batch # batches) =
     (case batch of (x_batch, randn, eps) \<Rightarrow>
        train_batches opt b (opt v b batch)
          (accumulate t (minibatch_loss v b x_batch randn eps)) batches)"

fun train_epochs ::
  "optimizer \<Rightarrow> (nat \<Rightarrow> batch list) \<Rightarrow> nat \<Rightarrow> real \<Rightarrow> vae \<Rightarrow> nat list
   \<Rightarrow> error + (vae \<times> epoch_vars list)" where
  "train_epochs opt loader W bf v [] = Inr (v, [])"
| "train_epochs opt loader W bf v (epoch # rest) =
     (let b = beta_schedule W bf epoch
      in case train_batches opt b v totals0 (loader epoch) of (v', t) \<Rightarrow>
           (case epoch_averages t of
              Inl e \<Rightarrow> Inl e
            | Inr (avg_recon, avg_kld, avg_loss) \<Rightarrow>
                (case train_epochs opt loader W bf v' rest of
                   Inl e \<Rightarrow> Inl e
                 | Inr (v'', vars) \<Rightarrow>
                     Inr (v'', (epoch, b, avg_recon, avg_kld, avg_loss) # vars))))"

text \<open>\<^verbatim>\<open>for epoch in range(1, epochs + 1)\<close>, with the module's constants.\<close>

definition train_loop ::
  "optimizer \<Rightarrow> (nat \<Rightarrow> batch list) \<Rightarrow> vae \<Rightarrow> error + (vae \<times> epoch_vars list)" where
  "train_loop opt loader v0 =
     train_epochs opt loader beta_warmup_epochs beta_final v0 [1..<epochs + 1]"

subsection \<open>Latent representations and reconstruction errors\<close>

text \<open>
  Lines 309-319, for the trained model \<open>v\<close>: the pair \<^verbatim>\<open>(latent, recon_errors)\<close>.
\<close>

definition latent_and_recon_errors :: "vae \<Rightarrow> matrix \<Rightarrow> matrix \<Rightarrow> matrix \<times> vec" where
  "latent_and_recon_errors v X_all eps =
     (case encode v X_all of (mu_all, logvar_all) \<Rightarrow>
        (let latent = mu_all;
             z_sample = reparameterize mu_all logvar_all eps;
             recon = decode v z_sample;
             recon_errors = map mean (ew2 (\<lambda>r a. (r - a)\<^sup>2) recon X_all)
         in (latent, recon_errors)))"

subsection \<open>Log lines, floats and library calls\<close>

text \<open>The lines the script prints that tell which branch ran.\<close>

datatype log_line =
  WarnTruncating nat nat
  | InfoUMAP
  | OkUMAP
  | WarnUMAPFailed string
  | InfoPCA
  | OkPCA
  | WarnPCAFailed string

text \<open>A float where the script distinguishes infinity or NaN from a number.\<close>

datatype npfloat = Num real | PosInf | NaN

text \<open>
  A call into a library returns its value or raises an \<^verbatim>\<open>Exception\<close>, of which the
  message is kept.
\<close>

type_synonym 'a raising = "string + 'a"

text \<open>
  \<^verbatim>\<open>X.shape[1]\<close>. A numpy array keeps its width when it has no row; a list of rows
  does not, and \<open>ncols\<close> is 0 there. The script does not get that far with no row
  (line 198 raises).
\<close>

definition ncols :: "'a list list \<Rightarrow> nat" where
  "ncols X = (case X of [] \<Rightarrow> 0 | r # _ \<Rightarrow> length r)"

text \<open>
  \<^verbatim>\<open>torch.randn_like(X)\<close>: a tensor of the shape of \<open>X\<close>, filled from the generator;
  \<open>draw i j\<close> is the number the generator gives position \<open>(i, j)\<close>.
\<close>

definition randn_like :: "(nat \<Rightarrow> nat \<Rightarrow> real) \<Rightarrow> matrix \<Rightarrow> matrix" where
  "randn_like draw X = map (\<lambda>i. map (\<lambda>j. draw i j) [0..<length (X ! i)]) [0..<length X]"

subsection \<open>Aligning identifiers and embeddings\<close>

text \<open>Lines 191-195. A Python slice \<^verbatim>\<open>a[:k]\<close> is \<open>take k a\<close>.\<close>

definition align_inputs :: "string list \<Rightarrow> 'a list \<Rightarrow> string list \<times> 'a list \<times> log_line list" where
  "align_inputs read_ids embeddings =
     (if length read_ids \<noteq> length embeddings
      then (let minlen = min (length read_ids) (length embeddings)
            in (take minlen read_ids, take minlen embeddings,
                [WarnTruncating (length read_ids) (length embeddings)]))
      else (read_ids, embeddings, []))"

subsection \<open>Dimensionality reduction before clustering\<close>

text \<open>
  Lines 337-364. \<open>umap\<close> is \<open>None\<close> when \<^verbatim>\<open>import umap\<close> failed (\<^verbatim>\<open>_HAS_UMAP\<close> is false)
  and otherwise \<^verbatim>\<open>UMAP(n_components=n, ...).fit_transform\<close>; \<open>pca\<close> is
  \<^verbatim>\<open>PCA(n_components=n, ...).fit_transform\<close> together with the sum of
  \<^verbatim>\<open>explained_variance_ratio_\<close>; \<open>D\<close> is \<^verbatim>\<open>latent_scaled.shape[1]\<close>. The stage does not look
  into the matrices, so their type is left open.
\<close>

definition reduce_dims ::
  "nat \<Rightarrow> (nat \<Rightarrow> 'm \<Rightarrow> 'm raising) option \<Rightarrow> (nat \<Rightarrow> 'm \<Rightarrow> ('m \<times> npfloat) raising)
   \<Rightarrow> 'm \<Rightarrow> 'm \<times> log_line list" where
  "reduce_dims D umap pca latent_scaled =
     (let use_umap = (umap \<noteq> None);
          n_target = (if use_umap then min umap_components D else min pca_components D)
      in case (case umap of
                 None \<Rightarrow> (None, use_umap, [])
               | Some fit_transform \<Rightarrow>
                   (case fit_transform n_target latent_scaled of
                      Inr p \<Rightarrow> (Some p, use_umap, [InfoUMAP, OkUMAP])
                    | Inl e \<Rightarrow> (None, False, [InfoUMAP, WarnUMAPFailed e])))
         of (latent_proj, use_umap, printed) \<Rightarrow>
           (case latent_proj of
              Some p \<Rightarrow>
                (if \<not> use_umap
                 then (let n_components = min pca_components D
                       in case pca n_components latent_scaled of
                            Inr (q, explained) \<Rightarrow>
                              (if explained = NaN
                               then (latent_scaled,
                                     printed @ [InfoPCA, WarnPCAFailed ''PCA explained variance is NaN''])
                               else (q, printed @ [InfoPCA, OkPCA]))
                          | Inl e \<Rightarrow> (latent_scaled, printed @ [InfoPCA, WarnPCAFailed e]))
                 else (p, printed))
            | None \<Rightarrow>
                (let n_components = min pca_components D
                 in case pca n_components latent_scaled of
                      Inr (q, explained) \<Rightarrow>
                        (if explained = NaN
                         then (latent_scaled,
                               printed @ [InfoPCA, WarnPCAFailed ''PCA explained variance is NaN''])
                         else (q, printed @ [InfoPCA, OkPCA]))
                    | Inl e \<Rightarrow> (latent_scaled, printed @ [InfoPCA, WarnPCAFailed e]))))"

subsection \<open>Distance to the nearest centroid\<close>

text \<open>
  Line 374: \<^verbatim>\<open>[c for c in set(cluster_labels) if c != -1]\<close>. The order in which a Python
  set is read is not fixed; the minimum taken below does not depend on it.
\<close>

definition unique_clusters :: "int list \<Rightarrow> int list" where
  "unique_clusters cluster_labels = filter (\<lambda>c. c \<noteq> - 1) (remdups cluster_labels)"

text \<open>\<^verbatim>\<open>latent_proj[cluster_labels == c]\<close>, for a mask as long as the array.\<close>

definition members :: "matrix \<Rightarrow> int list \<Rightarrow> int \<Rightarrow> matrix" where
  "members latent_proj cluster_labels c =
     map fst (filter (\<lambda>pl. snd pl = c) (zip latent_proj cluster_labels))"

text \<open>\<^verbatim>\<open>M.mean(axis=0)\<close>: the mean of every column.\<close>

definition mean_axis0 :: "matrix \<Rightarrow> vec" where
  "mean_axis0 M = map (\<lambda>j. mean (map (\<lambda>r. r ! j) M)) [0..<ncols M]"

text \<open>\<^verbatim>\<open>pairwise_distances(X, Y)\<close> with its default metric, the Euclidean one.\<close>

definition euclidean :: "vec \<Rightarrow> vec \<Rightarrow> real" where
  "euclidean p q = sqrt (sum_list (map2 (\<lambda>a b. (a - b)\<^sup>2) p q))"

definition pairwise_distances :: "matrix \<Rightarrow> matrix \<Rightarrow> matrix" where
  "pairwise_distances X Y = map (\<lambda>p. map (euclidean p) Y) X"

text \<open>
  Lines 374-380. A boolean mask of another length than the array it indexes raises
  IndexError.
\<close>

definition cluster_distances :: "matrix \<Rightarrow> int list \<Rightarrow> error + npfloat list" where
  "cluster_distances latent_proj cluster_labels =
     (let unique = unique_clusters cluster_labels
      in if length unique > 0
         then (if length cluster_labels \<noteq> length latent_proj then Inl IndexError
               else (let centroids =
                           map (\<lambda>c. mean_axis0 (members latent_proj cluster_labels c)) unique;
                         distances = pairwise_distances latent_proj centroids
                     in Inr (map (\<lambda>row. Num (min_list row)) distances)))
         else Inr (replicate (length latent_proj) PosInf))"

subsection \<open>The output tables\<close>

text \<open>
  \<^verbatim>\<open>pd.DataFrame({...})\<close> of two and of three columns: one row per position, and
  ValueError when the columns differ in length.
\<close>

definition data_frame2 :: "'a list \<Rightarrow> 'b list \<Rightarrow> error + ('a \<times> 'b) list" where
  "data_frame2 a b = (if length a = length b then Inr (zip a b) else Inl ValueError)"

definition data_frame3 :: "'a list \<Rightarrow> 'b list \<Rightarrow> 'c list \<Rightarrow> error + ('a \<times> 'b \<times> 'c) list" where
  "data_frame3 a b c =
     (if length a = length b \<and> length b = length c then Inr (zip a (zip b c))
      else Inl ValueError)"

subsection \<open>The run, from the loaded inputs to the two tables\<close>

record libs =
  standard_scaler :: "matrix \<Rightarrow> matrix raising"
  umap_lib :: "(nat \<Rightarrow> matrix \<Rightarrow> matrix raising) option"
  pca_lib :: "nat \<Rightarrow> matrix \<Rightarrow> (matrix \<times> npfloat) raising"
  hdbscan_lib :: "nat \<Rightarrow> nat \<Rightarrow> matrix \<Rightarrow> int list raising"

type_synonym cluster_table = "(string \<times> int) list"
type_synonym novelty_table = "(string \<times> real \<times> npfloat) list"

text \<open>Lines 400-411: the two tables, the cluster table first.\<close>

definition save_outputs ::
  "string list \<Rightarrow> int list \<Rightarrow> real list \<Rightarrow> npfloat list
   \<Rightarrow> error + (cluster_table \<times> novelty_table)" where
  "save_outputs read_ids cluster_labels recon_errors cluster_distance =
     (case data_frame2 read_ids cluster_labels of
        Inl e \<Rightarrow> Inl e
      | Inr clusters_df \<Rightarrow>
          (case data_frame3 read_ids recon_errors cluster_distance of
             Inl e \<Rightarrow> Inl e
           | Inr novelty_df \<Rightarrow> Inr (clusters_df, novelty_df)))"

text \<open>Lines 370-380: clustering, then the distances. An exception of HDBSCAN ends the run.\<close>

definition cluster_stage :: "libs \<Rightarrow> matrix \<Rightarrow> error + (int list \<times> npfloat list)" where
  "cluster_stage L latent_proj =
     (case hdbscan_lib L hdbscan_min_cluster_size hdbscan_min_samples latent_proj of
        Inl m \<Rightarrow> Inl (LibraryError m)
      | Inr cluster_labels \<Rightarrow>
          (case cluster_distances latent_proj cluster_labels of
             Inl e \<Rightarrow> Inl e
           | Inr cluster_distance \<Rightarrow> Inr (cluster_labels, cluster_distance)))"

text \<open>Lines 331-364: the scaler, then the reduction. An exception of the scaler ends the run.\<close>

definition project_stage :: "libs \<Rightarrow> matrix \<Rightarrow> error + (matrix \<times> log_line list)" where
  "project_stage L latent =
     (case standard_scaler L latent of
        Inl m \<Rightarrow> Inl (LibraryError m)
      | Inr latent_scaled \<Rightarrow>
          Inr (reduce_dims (ncols latent_scaled) (umap_lib L) (pca_lib L) latent_scaled))"

text \<open>
  Lines 191-411 of \<^verbatim>\<open>main\<close>. \<open>train\<close> stands for lines 201-302 (the model \<open>train_loop\<close> ends
  with, for torch's loader, initial weights and optimiser); \<open>draw\<close> is the generator
  at line 317. Line 198 takes the minimum of the embeddings, which raises ValueError on
  an array with no element (no row, or rows of no width). The result is the cluster table, the novelty table and the
  log.
\<close>

definition main ::
  "libs \<Rightarrow> (matrix \<Rightarrow> vae raising) \<Rightarrow> (nat \<Rightarrow> nat \<Rightarrow> real) \<Rightarrow> string list \<Rightarrow> matrix
   \<Rightarrow> error + (cluster_table \<times> novelty_table \<times> log_line list)" where
  "main L train draw ids0 embeddings0 =
     (case align_inputs ids0 embeddings0 of
        (read_ids, embeddings, log0) \<Rightarrow>
          (if concat embeddings = [] then Inl ValueError
           else (case train embeddings of
                   Inl m \<Rightarrow> Inl (LibraryError m)
                 | Inr v \<Rightarrow>
                     (case latent_and_recon_errors v embeddings
                             (randn_like draw (snd (encode v embeddings))) of
                        (latent, recon_errors) \<Rightarrow>
                          (case project_stage L latent of
                             Inl e \<Rightarrow> Inl e
                           | Inr (latent_proj, log1) \<Rightarrow>
                               (case cluster_stage L latent_proj of
                                  Inl e \<Rightarrow> Inl e
                                | Inr (cluster_labels, cluster_distance) \<Rightarrow>
                                    (case save_outputs read_ids cluster_labels recon_errors
                                            cluster_distance of
                                       Inl e \<Rightarrow> Inl e
                                     | Inr (clusters_df, novelty_df) \<Rightarrow>
                                         Inr (clusters_df, novelty_df, log0 @ log1))))))))"

subsection \<open>A model to run the definitions on\<close>

text \<open>One input, one hidden and one latent unit.\<close>

definition example_vae :: vae where
  "example_vae = \<lparr>fc1 = ([[1]], [0]), fc_mu = ([[1]], [0]), fc_logvar = ([[0]], [0]),
     fc2 = ([[1]], [0]), fc3 = ([[1]], [0])\<rparr>"

text \<open>
  Libraries to run \<^verbatim>\<open>main\<close> on: a scaler that returns its input, no UMAP, a PCA that
  returns its input, and a clusterer that puts the rows of sum above 1 in cluster 0 and
  calls the others noise; a training that returns the model above; and a generator that
  draws 3 everywhere.
\<close>

definition example_libs :: libs where
  "example_libs = \<lparr>standard_scaler = (\<lambda>X. Inr X), umap_lib = None,
     pca_lib = (\<lambda>n X. Inr (X, Num 1)),
     hdbscan_lib = (\<lambda>min_cluster_size min_samples X.
        Inr (map (\<lambda>r. if 1 < sum_list r then 0 else - 1) X))\<rparr>"

definition example_train :: "matrix \<Rightarrow> vae raising" where
  "example_train X = Inr example_vae"

definition example_draw :: "nat \<Rightarrow> nat \<Rightarrow> real" where
  "example_draw i j = 3"

text \<open>
  A UMAP that returns a matrix of NaN without raising, and a PCA that returns a matrix
  of numbers, on matrices of floats that may be NaN.
\<close>

definition nan_umap :: "nat \<Rightarrow> npfloat list list \<Rightarrow> npfloat list list raising" where
  "nan_umap n X = Inr [[NaN]]"

definition sound_pca :: "nat \<Rightarrow> npfloat list list \<Rightarrow> (npfloat list list \<times> npfloat) raising" where
  "sound_pca n X = Inr ([[Num 0]], Num 1)"

subsection \<open>What the specification calls the two loss terms\<close>

text \<open>
  The mean-squared error of a reconstruction \<open>r\<close> of an input \<open>x\<close>, and the KL divergence
  of a Gaussian with mean \<open>m\<close> and diagonal variance \<open>s\<close> from the standard normal, in its
  closed form \<open>(\<Sum>j. s\<^sub>j + m\<^sub>j\<^sup>2 - 1 - ln s\<^sub>j) / 2\<close>. They are written from the
  specification, to compare the script's expressions with.
\<close>

definition mse_spec :: "vec \<Rightarrow> vec \<Rightarrow> real" where
  "mse_spec r x = (\<Sum>j<length x. (r ! j - x ! j)\<^sup>2) / real (length x)"

definition kl_std_normal_spec :: "vec \<Rightarrow> vec \<Rightarrow> real" where
  "kl_std_normal_spec m s = (\<Sum>j<length m. (s ! j + (m ! j)\<^sup>2 - 1 - ln (s ! j)) / 2)"

text \<open>
  The centroid of the cluster \<open>c\<close>: the arithmetic mean, coordinate by coordinate, of
  the rows of width \<open>d\<close> whose label is \<open>c\<close>. And the Euclidean distance of two points.
\<close>

definition centroid_spec :: "nat \<Rightarrow> matrix \<Rightarrow> int list \<Rightarrow> int \<Rightarrow> vec" where
  "centroid_spec d P ls c =
     map (\<lambda>j. (\<Sum>i \<in> {i \<in> {..<length ls}. ls ! i = c}. P ! i ! j)
               / real (card {i \<in> {..<length ls}. ls ! i = c}))
       [0..<d]"

definition euclid_spec :: "vec \<Rightarrow> vec \<Rightarrow> real" where
  "euclid_spec p q = sqrt (\<Sum>j<length p. (p ! j - q ! j)\<^sup>2)"

section \<open>Properties\<close>

subsection \<open>The beta schedule\<close>


lemma train_batches_n:
  "n_batches (snd (train_batches opt b v t batches)) = n_batches t + length batches"
  by (induction batches arbitrary: v t)
     (simp_all add: accumulate_def split: prod.splits)

lemma epoch_averages_Inr:
  "epoch_averages t =
     Inr (total_recon t / real (max 1 (n_batches t)), total_kld t / real (max 1 (n_batches t)),
          total_loss t / real (max 1 (n_batches t)))"
  by (simp add: epoch_averages_def py_div_def)

lemma train_epochs_total:
  "\<exists>v' vars. train_epochs opt loader W bf v es = Inr (v', vars)
     \<and> map (\<lambda>r. (fst r, fst (snd r))) vars = map (\<lambda>e. (e, beta_schedule W bf e)) es"
proof (induction es arbitrary: v)
  case Nil
  show ?case by simp
next
  case (Cons epoch rest)
  obtain v1 t where
    tb: "train_batches opt (beta_schedule W bf epoch) v totals0 (loader epoch) = (v1, t)"
    by (cases "train_batches opt (beta_schedule W bf epoch) v totals0 (loader epoch)")
  from Cons [of v1] obtain v2 vars where
    r: "train_epochs opt loader W bf v1 rest = Inr (v2, vars)" and
    m: "map (\<lambda>r. (fst r, fst (snd r))) vars = map (\<lambda>e. (e, beta_schedule W bf e)) rest"
    by blast
  show ?case
    by (simp add: Let_def tb epoch_averages_Inr r m)
qed



subsection \<open>The epoch summary\<close>

lemma run_batches_n: "n_batches (run_batches t bs) = n_batches t + length bs"
  by (induction bs arbitrary: t) (simp_all add: accumulate_def split: prod.splits)

lemma run_batches_recon:
  "total_recon (run_batches t bs) = total_recon t + sum_list (map fst bs)"
  by (induction bs arbitrary: t) (simp_all add: accumulate_def split: prod.splits)

lemma run_batches_kld:
  "total_kld (run_batches t bs) = total_kld t + sum_list (map (fst \<circ> snd) bs)"
  by (induction bs arbitrary: t) (simp_all add: accumulate_def split: prod.splits)

lemma run_batches_loss:
  "total_loss (run_batches t bs) = total_loss t + sum_list (map (snd \<circ> snd) bs)"
  by (induction bs arbitrary: t) (simp_all add: accumulate_def split: prod.splits)

text \<open>
  Claim C10. Whatever the minibatches of an epoch, also when there are none, the three
  averages are the totals over \<open>max 1 n_batches\<close>; that denominator is never zero, so the
  summary is a value and never a ZeroDivisionError. Over no minibatch the averages are 0.
  In the training loop the count is the number of minibatches the loader gave, and the
  loop over any list of epochs ends with a model, whatever the loader gives.
\<close>

theorem epoch_summary_never_divides_by_zero:
  "max 1 (n_batches (run_batches totals0 bs)) = max 1 (length bs)
   \<and> 0 < max 1 (length bs)
   \<and> epoch_summary bs =
       Inr (sum_list (map fst bs) / real (max 1 (length bs)),
            sum_list (map (fst \<circ> snd) bs) / real (max 1 (length bs)),
            sum_list (map (snd \<circ> snd) bs) / real (max 1 (length bs)))
   \<and> epoch_summary [] = Inr (0, 0, 0)
   \<and> n_batches (snd (train_batches opt b v totals0 batches)) = length batches
   \<and> epoch_averages (snd (train_batches opt b v totals0 [])) = Inr (0, 0, 0)
   \<and> (\<exists>v' vars. train_epochs opt loader W bf v es = Inr (v', vars))"
proof -
  have n: "n_batches (run_batches totals0 bs) = length bs"
    by (simp add: run_batches_n totals0_def)
  have nz: "0 < max 1 (length bs)" by simp
  have s: "epoch_summary bs =
       Inr (sum_list (map fst bs) / real (max 1 (length bs)),
            sum_list (map (fst \<circ> snd) bs) / real (max 1 (length bs)),
            sum_list (map (snd \<circ> snd) bs) / real (max 1 (length bs)))"
  proof -
    have r: "total_recon (run_batches totals0 bs) = sum_list (map fst bs)"
      by (simp add: run_batches_recon totals0_def)
    have k: "total_kld (run_batches totals0 bs) = sum_list (map (fst \<circ> snd) bs)"
      by (simp add: run_batches_kld totals0_def)
    have l: "total_loss (run_batches totals0 bs) = sum_list (map (snd \<circ> snd) bs)"
      by (simp add: run_batches_loss totals0_def)
    show ?thesis
      unfolding epoch_summary_def epoch_averages_def py_div_def n r k l
      using nz by simp
  qed
  have e: "epoch_summary [] = Inr (0, 0, 0)"
    by (simp add: epoch_summary_def epoch_averages_def py_div_def totals0_def)
  have tn: "n_batches (snd (train_batches opt b v totals0 batches)) = length batches"
    by (simp add: train_batches_n totals0_def)
  have te: "epoch_averages (snd (train_batches opt b v totals0 [])) = Inr (0, 0, 0)"
    by (simp add: epoch_averages_def py_div_def totals0_def)
  have tt: "\<exists>v' vars. train_epochs opt loader W bf v es = Inr (v', vars)"
    using train_epochs_total [of opt loader W bf v es] by blast
  have "max 1 (n_batches (run_batches totals0 bs)) = max 1 (length bs)"
    by (simp only: n)
  then show ?thesis using nz s e tn te tt by (intro conjI)
qed

subsection \<open>Shapes and sampling\<close>

lemma has_shape_nth: "has_shape n d X \<Longrightarrow> i < n \<Longrightarrow> length (X ! i) = d"
  by (simp add: has_shape_def list_all_length)

lemma has_shape_length: "has_shape n d X \<Longrightarrow> length X = n"
  by (simp add: has_shape_def)

lemma has_shape_ew1: "has_shape n d X \<Longrightarrow> has_shape n d (ew1 f X)"
  by (simp add: has_shape_def ew1_def list_all_length)

lemma has_shape_ew2:
  "has_shape n d X \<Longrightarrow> has_shape n d Y \<Longrightarrow> has_shape n d (ew2 f X Y)"
  by (simp add: has_shape_def ew2_def list_all_length)

lemma nth_ew1: "i < length X \<Longrightarrow> j < length (X ! i) \<Longrightarrow> ew1 f X ! i ! j = f (X ! i ! j)"
  by (simp add: ew1_def)

lemma nth_ew2:
  "i < length X \<Longrightarrow> i < length Y \<Longrightarrow> j < length (X ! i) \<Longrightarrow> j < length (Y ! i)
   \<Longrightarrow> ew2 f X Y ! i ! j = f (X ! i ! j) (Y ! i ! j)"
  by (simp add: ew2_def)

lemma clamp_max_min: "lo \<le> hi \<Longrightarrow> clamp x lo hi = max lo (min hi x)"
  by (simp add: clamp_def max_def min_def)

lemma reparameterize_shape:
  assumes "has_shape n d mu" "has_shape n d logvar" "has_shape n d eps"
  shows "has_shape n d (reparameterize mu logvar eps)"
  using assms by (simp add: reparameterize_def has_shape_ew1 has_shape_ew2)

lemma reparameterize_nth:
  assumes mu: "has_shape n d mu" and lv: "has_shape n d logvar" and eps: "has_shape n d eps"
    and i: "i < n" and j: "j < d"
  shows "reparameterize mu logvar eps ! i ! j =
     mu ! i ! j + eps ! i ! j * exp (0.5 * clamp (logvar ! i ! j) (- 20) 20)"
proof -
  let ?c = "ew1 (\<lambda>l. clamp l (- 20) 20) logvar"
  let ?s = "ew1 (\<lambda>l. exp (0.5 * l)) ?c"
  have c: "has_shape n d ?c" using lv by (rule has_shape_ew1)
  have s: "has_shape n d ?s" using c by (rule has_shape_ew1)
  have es: "has_shape n d (ew2 (*) eps ?s)" using eps s by (rule has_shape_ew2)
  have 1: "?c ! i ! j = clamp (logvar ! i ! j) (- 20) 20"
    using lv i j by (simp add: nth_ew1 has_shape_length has_shape_nth)
  have 2: "?s ! i ! j = exp (0.5 * ?c ! i ! j)"
    using c i j by (simp add: nth_ew1 has_shape_length has_shape_nth)
  have 3: "ew2 (*) eps ?s ! i ! j = eps ! i ! j * ?s ! i ! j"
    using eps s i j by (simp add: nth_ew2 has_shape_length has_shape_nth)
  have 4: "ew2 (+) mu (ew2 (*) eps ?s) ! i ! j = mu ! i ! j + ew2 (*) eps ?s ! i ! j"
    using mu es i j by (simp add: nth_ew2 has_shape_length has_shape_nth)
  show ?thesis
    unfolding reparameterize_def Let_def 4 3 2 1 ..
qed

text \<open>
  Claim C6. For a mean, a log-variance and a noise tensor of one shape (the noise is the
  draw of \<^verbatim>\<open>randn_like\<close>, an argument here), the sampled latent has that shape and is,
  at every position, \<open>mean + noise * exp (0.5 * clamp log_variance (-20) 20)\<close>, the
  clamp being \<open>max (-20) (min 20 _)\<close>.
\<close>

theorem reparameterize_formula:
  assumes "has_shape n d mu" and "has_shape n d logvar" and "has_shape n d eps"
  shows "has_shape n d (reparameterize mu logvar eps)
    \<and> (\<forall>i<n. \<forall>j<d. reparameterize mu logvar eps ! i ! j =
          mu ! i ! j + eps ! i ! j * exp (0.5 * max (- 20) (min 20 (logvar ! i ! j))))"
  using assms
  by (simp add: reparameterize_shape reparameterize_nth clamp_max_min)

theorem reparameterize_formula_witness:
  "has_shape 1 2 [[1, 2]] \<and> has_shape 1 2 [[0, 30]] \<and> has_shape 1 2 [[3, 1 / 2]]
   \<and> has_shape 1 2 (reparameterize [[1, 2]] [[0, 30]] [[3, 1 / 2]])
   \<and> reparameterize [[1, 2]] [[0, 30]] [[3, 1 / 2]] ! 0 ! 0 = 4
   \<and> reparameterize [[1, 2]] [[0, 30]] [[3, 1 / 2]] ! 0 ! 1 = 2 + exp 10 / 2"
proof -
  have a: "has_shape 1 2 [[1, 2]]" by (simp add: has_shape_def)
  have b: "has_shape 1 2 [[0, 30]]" by (simp add: has_shape_def)
  have c: "has_shape 1 2 [[3, 1 / 2]]" by (simp add: has_shape_def)
  note th = reparameterize_formula [OF a b c]
  let ?z = "reparameterize [[1, 2]] [[0, 30]] [[3, 1 / 2]]"
  have s: "has_shape 1 2 ?z" using th by (rule conjunct1)
  have f: "\<And>i j. i < 1 \<Longrightarrow> j < 2 \<Longrightarrow> ?z ! i ! j =
      [[1, 2]] ! i ! j + [[3, 1 / 2]] ! i ! j * exp (0.5 * max (- 20) (min 20 ([[0, 30]] ! i ! j)))"
    using th by blast
  have z0: "?z ! 0 ! 0 = 4" using f [of 0 0] by simp
  have z1: "?z ! 0 ! 1 = 2 + exp 10 / 2" using f [of 0 1] by simp
  show ?thesis using a b c s z0 z1 by blast
qed

subsection \<open>The loss of a minibatch\<close>

lemma affine_length: "linear_shape n_in n_out l \<Longrightarrow> length (affine l x) = n_out"
  by (simp add: linear_shape_def affine_def)

lemma apply_linear_shape:
  "linear_shape n_in n_out l \<Longrightarrow> has_shape (length X) n_out (apply_linear l X)"
  by (simp add: has_shape_def apply_linear_def list_all_iff affine_length)

lemma relu_shape: "has_shape n d X \<Longrightarrow> has_shape n d (relu X)"
  by (simp add: relu_def has_shape_ew1)

lemma encode_shape:
  assumes "vae_shape D H L v"
  shows "has_shape (length x) L (fst (encode v x))"
    and "has_shape (length x) L (snd (encode v x))"
proof -
  have "linear_shape D H (fc1 v)" using assms by (simp add: vae_shape_def)
  then have h: "has_shape (length x) H (relu (apply_linear (fc1 v) x))"
    by (intro relu_shape apply_linear_shape)
  then have lh: "length (relu (apply_linear (fc1 v) x)) = length x"
    by (rule has_shape_length)
  show "has_shape (length x) L (fst (encode v x))"
    using assms apply_linear_shape [of H L "fc_mu v" "relu (apply_linear (fc1 v) x)"]
    by (simp add: encode_def Let_def vae_shape_def lh)
  show "has_shape (length x) L (snd (encode v x))"
    using assms apply_linear_shape [of H L "fc_logvar v" "relu (apply_linear (fc1 v) x)"]
    by (simp add: encode_def Let_def vae_shape_def lh)
qed

lemma decode_shape:
  assumes "vae_shape D H L v"
  shows "has_shape (length z) D (decode v z)"
proof -
  have "linear_shape L H (fc2 v)" using assms by (simp add: vae_shape_def)
  then have h: "has_shape (length z) H (relu (apply_linear (fc2 v) z))"
    by (intro relu_shape apply_linear_shape)
  then have lh: "length (relu (apply_linear (fc2 v) z)) = length z"
    by (rule has_shape_length)
  show ?thesis
    using assms apply_linear_shape [of H D "fc3 v" "relu (apply_linear (fc2 v) z)"]
    by (simp add: decode_def Let_def vae_shape_def lh)
qed

lemma sum_list_map2_nth:
  "length xs = length ys \<Longrightarrow> sum_list (map2 f xs ys) = (\<Sum>j<length xs. f (xs ! j) (ys ! j))"
  by (simp add: sum_list_sum_nth atLeast0LessThan)

lemma sum_list_map_nth: "sum_list (map g xs) = (\<Sum>i<length xs. g (xs ! i))"
  by (simp add: sum_list_sum_nth atLeast0LessThan)

lemma ew2_row:
  "has_shape n d X \<Longrightarrow> has_shape n d Y \<Longrightarrow> i < n \<Longrightarrow> ew2 f X Y ! i = map2 f (X ! i) (Y ! i)"
  by (simp add: ew2_def has_shape_def)

lemma mean_sq_row:
  assumes "has_shape n d R" "has_shape n d X" "i < n"
  shows "mean (ew2 (\<lambda>r a. (r - a)\<^sup>2) R X ! i) = mse_spec (R ! i) (X ! i)"
proof -
  have l: "length (R ! i) = d" "length (X ! i) = d"
    using assms by (simp_all add: has_shape_nth)
  show ?thesis
    unfolding ew2_row [OF assms] mean_def mse_spec_def
    using l by (simp add: sum_list_map2_nth)
qed

lemma recon_per_sample_mean:
  assumes "has_shape n d R" "has_shape n d X"
  shows "mean (map mean (ew2 (\<lambda>r a. (r - a)\<^sup>2) R X))
     = (\<Sum>i<n. mse_spec (R ! i) (X ! i)) / real n"
proof -
  have s: "has_shape n d (ew2 (\<lambda>r a. (r - a)\<^sup>2) R X)"
    using assms by (rule has_shape_ew2)
  then have l: "length (ew2 (\<lambda>r a. (r - a)\<^sup>2) R X) = n" by (rule has_shape_length)
  have "sum_list (map mean (ew2 (\<lambda>r a. (r - a)\<^sup>2) R X))
      = (\<Sum>i<n. mean (ew2 (\<lambda>r a. (r - a)\<^sup>2) R X ! i))"
    by (simp add: sum_list_map_nth l)
  also have "\<dots> = (\<Sum>i<n. mse_spec (R ! i) (X ! i))"
    using assms by (simp add: mean_sq_row)
  finally show ?thesis by (simp add: mean_def l)
qed

lemma kld_row:
  assumes "has_shape n d M" "has_shape n d Lv" "i < n"
  shows "- 0.5 * sum_list (ew2 (\<lambda>m l. 1 + l - m\<^sup>2 - exp l) M Lv ! i)
     = kl_std_normal_spec (M ! i) (map exp (Lv ! i))"
proof -
  have l: "length (M ! i) = d" "length (Lv ! i) = d"
    using assms by (simp_all add: has_shape_nth)
  have "- 0.5 * (\<Sum>j<d. 1 + Lv ! i ! j - (M ! i ! j)\<^sup>2 - exp (Lv ! i ! j))
      = (\<Sum>j<d. - 0.5 * (1 + Lv ! i ! j - (M ! i ! j)\<^sup>2 - exp (Lv ! i ! j)))"
    by (simp only: sum_distrib_left)
  also have "\<dots> = (\<Sum>j<d. (map exp (Lv ! i) ! j + (M ! i ! j)\<^sup>2 - 1 - ln (map exp (Lv ! i) ! j)) / 2)"
    using l by (intro sum.cong) (simp_all add: field_simps)
  finally show ?thesis
    unfolding ew2_row [OF assms] kl_std_normal_spec_def
    using l by (simp add: sum_list_map2_nth)
qed

lemma kld_mean:
  assumes "has_shape n d M" "has_shape n d Lv"
  shows "mean (map (\<lambda>t. - 0.5 * sum_list t) (ew2 (\<lambda>m l. 1 + l - m\<^sup>2 - exp l) M Lv))
     = (\<Sum>i<n. kl_std_normal_spec (M ! i) (map exp (Lv ! i))) / real n"
proof -
  let ?E = "ew2 (\<lambda>m l. 1 + l - m\<^sup>2 - exp l) M Lv"
  have s: "has_shape n d ?E" using assms by (rule has_shape_ew2)
  then have l: "length ?E = n" by (rule has_shape_length)
  have "sum_list (map (\<lambda>t. - 0.5 * sum_list t) ?E) = (\<Sum>i<n. - 0.5 * sum_list (?E ! i))"
    by (simp add: sum_list_map_nth l)
  also have "\<dots> = (\<Sum>i<n. kl_std_normal_spec (M ! i) (map exp (Lv ! i)))"
    using assms by (intro sum.cong refl kld_row) simp_all
  finally show ?thesis by (simp add: mean_def l)
qed


lemma add_input_noise_shape:
  "has_shape n d x \<Longrightarrow> has_shape n d randn \<Longrightarrow> has_shape n d (add_input_noise x randn)"
  by (simp add: add_input_noise_def Let_def has_shape_ew1 has_shape_ew2)

lemma add_input_noise_nth:
  assumes "has_shape n d x" "has_shape n d randn" "i < n" "j < d"
  shows "add_input_noise x randn ! i ! j = x ! i ! j + randn ! i ! j * input_noise_std"
proof -
  have p: "input_noise_std > 0" by (simp add: input_noise_std_def)
  have s: "has_shape n d (ew1 (\<lambda>r. r * input_noise_std) randn)"
    using assms(2) by (rule has_shape_ew1)
  have 1: "ew1 (\<lambda>r. r * input_noise_std) randn ! i ! j = randn ! i ! j * input_noise_std"
    using assms by (simp add: nth_ew1 has_shape_length has_shape_nth)
  have 2: "ew2 (+) x (ew1 (\<lambda>r. r * input_noise_std) randn) ! i ! j
      = x ! i ! j + ew1 (\<lambda>r. r * input_noise_std) randn ! i ! j"
    using assms s by (simp add: nth_ew2 has_shape_length has_shape_nth)
  show ?thesis using p by (simp add: add_input_noise_def Let_def 1 2)
qed

lemma vae_losses_spec:
  assumes "has_shape n d x" "has_shape n d x_recon" "has_shape n l mu" "has_shape n l logvar"
  shows "vae_losses x x_recon mu logvar =
     ((\<Sum>i<n. mse_spec (x_recon ! i) (x ! i)) / real n,
      (\<Sum>i<n. kl_std_normal_spec (mu ! i) (map exp (logvar ! i))) / real n,
      map mean (ew2 (\<lambda>r a. (r - a)\<^sup>2) x_recon x))"
  unfolding vae_losses_def Let_def
  using recon_per_sample_mean [OF assms(2) assms(1)] kld_mean [OF assms(3) assms(4)]
  by simp

text \<open>
  Claim C4. For a minibatch of \<open>n > 0\<close> rows of width \<open>D > 0\<close>, a model of the shapes of
  \<^verbatim>\<open>VAE.__init__\<close> and draws of the right shapes: the encoder reads the input plus
  \<open>input_noise_std\<close> times the draw; the reconstruction is the decoding of the latent
  sampled from what the encoder returned; the reconstruction loss is the batch mean of
  the mean-squared error of each reconstructed row against the row of the input without
  noise; the KL term is the batch mean of the KL divergence of each row's posterior
  (mean \<open>mu\<close>, variance \<open>exp logvar\<close>) from the standard normal; and the loss that is
  backpropagated is the first plus \<open>beta\<close> times the second.
\<close>

theorem minibatch_loss_denoising:
  assumes v: "vae_shape D H L v"
    and x: "has_shape n D x_batch" and r: "has_shape n D randn" and e: "has_shape n L eps"
    and pos: "0 < n" "0 < D"
  shows "(\<forall>i<n. \<forall>j<D. add_input_noise x_batch randn ! i ! j
            = x_batch ! i ! j + randn ! i ! j * input_noise_std)
    \<and> (\<exists>x_recon mu logvar.
          (mu, logvar) = encode v (add_input_noise x_batch randn)
        \<and> x_recon = decode v (reparameterize mu logvar eps)
        \<and> minibatch_loss v b x_batch randn eps =
            ((\<Sum>i<n. mse_spec (x_recon ! i) (x_batch ! i)) / real n,
             (\<Sum>i<n. kl_std_normal_spec (mu ! i) (map exp (logvar ! i))) / real n,
             (\<Sum>i<n. mse_spec (x_recon ! i) (x_batch ! i)) / real n
               + b * ((\<Sum>i<n. kl_std_normal_spec (mu ! i) (map exp (logvar ! i))) / real n)))"
proof -
  let ?xn = "add_input_noise x_batch randn"
  let ?mu = "fst (encode v ?xn)"
  let ?lv = "snd (encode v ?xn)"
  let ?z = "reparameterize ?mu ?lv eps"
  let ?xr = "decode v ?z"
  have xn: "has_shape n D ?xn" using x r by (rule add_input_noise_shape)
  then have ln: "length ?xn = n" by (rule has_shape_length)
  have mu: "has_shape n L ?mu" using encode_shape(1) [OF v, of ?xn] by (simp add: ln)
  have lv: "has_shape n L ?lv" using encode_shape(2) [OF v, of ?xn] by (simp add: ln)
  have z: "has_shape n L ?z" using mu lv e by (rule reparameterize_shape)
  then have lz: "length ?z = n" by (rule has_shape_length)
  have xr: "has_shape n D ?xr" using decode_shape [OF v, of ?z] by (simp add: lz)
  have f: "forward v ?xn eps = (?xr, ?mu, ?lv)"
    by (simp add: forward_def Let_def split: prod.splits)
  have m: "minibatch_loss v b x_batch randn eps =
            ((\<Sum>i<n. mse_spec (?xr ! i) (x_batch ! i)) / real n,
             (\<Sum>i<n. kl_std_normal_spec (?mu ! i) (map exp (?lv ! i))) / real n,
             (\<Sum>i<n. mse_spec (?xr ! i) (x_batch ! i)) / real n
               + b * ((\<Sum>i<n. kl_std_normal_spec (?mu ! i) (map exp (?lv ! i))) / real n))"
    by (simp only: minibatch_loss_def Let_def f vae_losses_spec [OF x xr mu lv] prod.case)
  have a: "\<forall>i<n. \<forall>j<D. ?xn ! i ! j = x_batch ! i ! j + randn ! i ! j * input_noise_std"
    using x r by (simp add: add_input_noise_nth)
  have "(?mu, ?lv) = encode v ?xn" by simp
  with m a show ?thesis by blast
qed

theorem minibatch_loss_denoising_witness:
  "vae_shape 1 1 1 example_vae \<and> has_shape 1 1 [[1]] \<and> has_shape 1 1 [[100]] \<and> has_shape 1 1 [[2]]
   \<and> add_input_noise [[1]] [[100]] ! 0 ! 0 = 2
   \<and> minibatch_loss example_vae 10 [[1]] [[100]] [[2]] = (9, 2, 29)"
proof -
  have v: "vae_shape 1 1 1 example_vae"
    by (simp add: vae_shape_def linear_shape_def example_vae_def)
  have x: "has_shape 1 1 [[1]]" by (simp add: has_shape_def)
  have r: "has_shape 1 1 [[100]]" by (simp add: has_shape_def)
  have e: "has_shape 1 1 [[2]]" by (simp add: has_shape_def)
  note th = minibatch_loss_denoising [OF v x r e, of 10]
  have n: "add_input_noise [[1]] [[100]] ! 0 ! 0 = 2"
    using th by (simp add: input_noise_std_def)
  then have xn: "add_input_noise [[1]] [[100]] = [[2]]"
    by (simp add: add_input_noise_def input_noise_std_def ew1_def ew2_def)
  have enc: "encode example_vae [[2]] = ([[2]], [[0]])"
    by (simp add: encode_def example_vae_def relu_def apply_linear_def affine_def ew1_def)
  have z: "reparameterize [[2]] [[0]] [[2]] = [[4]]"
    by (simp add: reparameterize_def ew1_def ew2_def clamp_def)
  have dec: "decode example_vae [[4]] = [[4]]"
    by (simp add: decode_def example_vae_def relu_def apply_linear_def affine_def ew1_def)
  from th obtain x_recon mu logvar where
    1: "(mu, logvar) = encode example_vae (add_input_noise [[1]] [[100]])" and
    2: "x_recon = decode example_vae (reparameterize mu logvar [[2]])" and
    3: "minibatch_loss example_vae 10 [[1]] [[100]] [[2]] =
            ((\<Sum>i<1. mse_spec (x_recon ! i) ([[1]] ! i)) / real 1,
             (\<Sum>i<1. kl_std_normal_spec (mu ! i) (map exp (logvar ! i))) / real 1,
             (\<Sum>i<1. mse_spec (x_recon ! i) ([[1]] ! i)) / real 1
               + 10 * ((\<Sum>i<1. kl_std_normal_spec (mu ! i) (map exp (logvar ! i))) / real 1))"
    by auto
  have mu: "mu = [[2]]" and lv: "logvar = [[0]]" using 1 by (simp_all add: xn enc)
  have xr: "x_recon = [[4]]" using 2 by (simp add: mu lv z dec)
  have "minibatch_loss example_vae 10 [[1]] [[100]] [[2]] = (9, 2, 29)"
    unfolding 3 mu lv xr by (simp add: mse_spec_def kl_std_normal_spec_def)
  then show ?thesis using v x r e n by blast
qed

subsection \<open>Distance to the nearest centroid\<close>

lemma zip_as_map_nth:
  "length xs = length ys \<Longrightarrow> zip xs ys = map (\<lambda>i. (xs ! i, ys ! i)) [0..<length ys]"
  by (rule nth_equalityI) simp_all

lemma members_conv:
  assumes "length P = length ls"
  shows "members P ls c = map ((!) P) (filter (\<lambda>i. ls ! i = c) [0..<length ls])"
  unfolding members_def zip_as_map_nth [OF assms]
  by (simp add: filter_map o_def)

lemma member_indices_set:
  "set (filter (\<lambda>i. ls ! i = c) [0..<length ls]) = {i \<in> {..<length ls}. ls ! i = c}"
  by auto

lemma members_sum:
  assumes "length P = length ls"
  shows "sum_list (map g (members P ls c)) = (\<Sum>i \<in> {i \<in> {..<length ls}. ls ! i = c}. g (P ! i))"
proof -
  have d: "distinct (filter (\<lambda>i. ls ! i = c) [0..<length ls])" by simp
  have "sum_list (map g (members P ls c))
      = sum_list (map (\<lambda>i. g (P ! i)) (filter (\<lambda>i. ls ! i = c) [0..<length ls]))"
    by (simp add: members_conv [OF assms] o_def)
  also have "\<dots> = sum (\<lambda>i. g (P ! i)) (set (filter (\<lambda>i. ls ! i = c) [0..<length ls]))"
    using d by (rule sum_list_distinct_conv_sum_set)
  finally show ?thesis by (simp only: member_indices_set)
qed

lemma members_length:
  assumes "length P = length ls"
  shows "length (members P ls c) = card {i \<in> {..<length ls}. ls ! i = c}"
proof -
  have d: "distinct (filter (\<lambda>i. ls ! i = c) [0..<length ls])" by simp
  have "length (members P ls c) = length (filter (\<lambda>i. ls ! i = c) [0..<length ls])"
    by (simp add: members_conv [OF assms])
  also have "\<dots> = card (set (filter (\<lambda>i. ls ! i = c) [0..<length ls]))"
    using distinct_card [OF d] by (rule sym)
  finally show ?thesis by (simp only: member_indices_set)
qed

lemma members_rows:
  assumes "length P = length ls" and "has_shape n d P"
  shows "list_all (\<lambda>r. length r = d) (members P ls c)"
  using assms
  by (auto simp: members_conv list_all_iff has_shape_def)

lemma members_nonempty:
  assumes "length P = length ls" and "c \<in> set ls"
  shows "members P ls c \<noteq> []"
proof -
  from assms(2) obtain i where "i < length ls" "ls ! i = c" by (auto simp: in_set_conv_nth)
  then have "i \<in> set (filter (\<lambda>i. ls ! i = c) [0..<length ls])" by simp
  then have "filter (\<lambda>i. ls ! i = c) [0..<length ls] \<noteq> []"
    by (metis empty_iff list.set(1))
  then show ?thesis by (simp add: members_conv [OF assms(1)])
qed

lemma ncols_rows: "M \<noteq> [] \<Longrightarrow> list_all (\<lambda>r. length r = d) M \<Longrightarrow> ncols M = d"
  by (cases M) (simp_all add: ncols_def)

lemma centroid_is_mean:
  assumes l: "length P = length ls" and s: "has_shape n d P" and c: "c \<in> set ls"
  shows "mean_axis0 (members P ls c) = centroid_spec d P ls c"
proof -
  have w: "ncols (members P ls c) = d"
    using members_nonempty [OF l c] members_rows [OF l s] by (rule ncols_rows)
  have col: "\<And>j. mean (map (\<lambda>r. r ! j) (members P ls c))
      = (\<Sum>i \<in> {i \<in> {..<length ls}. ls ! i = c}. P ! i ! j)
          / real (card {i \<in> {..<length ls}. ls ! i = c})"
    by (simp add: mean_def members_sum [OF l] members_length [OF l])
  show ?thesis
    unfolding mean_axis0_def centroid_spec_def w by (simp add: col)
qed

lemma centroid_spec_length: "length (centroid_spec d P ls c) = d"
  by (simp add: centroid_spec_def)

lemma euclidean_spec: "length p = length q \<Longrightarrow> euclidean p q = euclid_spec p q"
  by (simp add: euclidean_def euclid_spec_def sum_list_map2_nth)

lemma min_list_map_Min: "cs \<noteq> [] \<Longrightarrow> min_list (map f cs) = Min (f ` set cs)"
  by (simp add: min_list_Min)

lemma set_unique_clusters: "set (unique_clusters ls) = {c \<in> set ls. c \<noteq> - 1}"
  by (auto simp: unique_clusters_def)


lemma nearest_centroid_row:
  assumes l: "length ls = length P" and s: "has_shape n d P" and i: "i < n"
    and ne: "unique_clusters ls \<noteq> []"
  shows "min_list (map (euclidean (P ! i))
            (map (\<lambda>c. mean_axis0 (members P ls c)) (unique_clusters ls)))
     = Min ((\<lambda>c. euclid_spec (P ! i) (centroid_spec d P ls c)) ` {c \<in> set ls. c \<noteq> - 1})"
proof -
  have pi: "length (P ! i) = d" using s i by (rule has_shape_nth)
  have e: "\<And>c. c \<in> set (unique_clusters ls) \<Longrightarrow>
      euclidean (P ! i) (mean_axis0 (members P ls c))
        = euclid_spec (P ! i) (centroid_spec d P ls c)"
  proof -
    fix c assume "c \<in> set (unique_clusters ls)"
    then have c: "c \<in> set ls" by (simp add: set_unique_clusters)
    have m: "mean_axis0 (members P ls c) = centroid_spec d P ls c"
      using l [symmetric] s c by (rule centroid_is_mean)
    show "euclidean (P ! i) (mean_axis0 (members P ls c))
        = euclid_spec (P ! i) (centroid_spec d P ls c)"
      unfolding m by (rule euclidean_spec) (simp add: pi centroid_spec_length)
  qed
  have "map (euclidean (P ! i)) (map (\<lambda>c. mean_axis0 (members P ls c)) (unique_clusters ls))
      = map (\<lambda>c. euclid_spec (P ! i) (centroid_spec d P ls c)) (unique_clusters ls)"
    using e by simp
  then show ?thesis
    using min_list_map_Min [OF ne, of "\<lambda>c. euclid_spec (P ! i) (centroid_spec d P ls c)"]
    by (simp only: set_unique_clusters)
qed

text \<open>
  Claim C2. For labels as many as the rows of the projected latent matrix (\<open>n\<close> rows of
  width \<open>d\<close>), the distances are computed, one per row. If some label is not \<open>-1\<close>, the
  distance of every row, a noise row too, is the least Euclidean distance from the row
  to the centroid of a cluster whose label is not \<open>-1\<close>, the centroid being the
  arithmetic mean of the rows of that label. And every row has the infinity sentinel
  exactly when no label is other than \<open>-1\<close>.
\<close>

theorem cluster_distance_nearest_centroid:
  assumes l: "length cluster_labels = length latent_proj" and s: "has_shape n d latent_proj"
  shows "\<exists>cd. cluster_distances latent_proj cluster_labels = Inr cd \<and> length cd = n
    \<and> ({c \<in> set cluster_labels. c \<noteq> - 1} \<noteq> {} \<longrightarrow>
         (\<forall>i<n. cd ! i = Num (Min ((\<lambda>c. euclid_spec (latent_proj ! i)
                     (centroid_spec d latent_proj cluster_labels c))
                  ` {c \<in> set cluster_labels. c \<noteq> - 1}))))
    \<and> ((\<forall>i<n. cd ! i = PosInf) \<longleftrightarrow> {c \<in> set cluster_labels. c \<noteq> - 1} = {})"
proof (cases "unique_clusters cluster_labels = []")
  case True
  then have e: "{c \<in> set cluster_labels. c \<noteq> - 1} = {}"
    using set_unique_clusters [of cluster_labels] by simp
  have n: "length latent_proj = n" using s by (rule has_shape_length)
  have "cluster_distances latent_proj cluster_labels = Inr (replicate n PosInf)"
    using True by (simp add: cluster_distances_def n)
  then show ?thesis using e by simp
next
  case False
  then have e: "{c \<in> set cluster_labels. c \<noteq> - 1} \<noteq> {}"
    using set_unique_clusters [of cluster_labels] by (metis set_empty)
  have n: "length latent_proj = n" using s by (rule has_shape_length)
  let ?cen = "map (\<lambda>c. mean_axis0 (members latent_proj cluster_labels c))
                (unique_clusters cluster_labels)"
  let ?cd = "map (\<lambda>row. Num (min_list row)) (pairwise_distances latent_proj ?cen)"
  have r: "cluster_distances latent_proj cluster_labels = Inr ?cd"
    using False l by (simp add: cluster_distances_def Let_def)
  have len: "length ?cd = n" by (simp add: pairwise_distances_def n)
  have row: "\<forall>i<n. ?cd ! i = Num (Min ((\<lambda>c. euclid_spec (latent_proj ! i)
                     (centroid_spec d latent_proj cluster_labels c))
                  ` {c \<in> set cluster_labels. c \<noteq> - 1}))"
  proof (intro allI impI)
    fix i assume i: "i < n"
    have "?cd ! i = Num (min_list (map (euclidean (latent_proj ! i)) ?cen))"
      using i by (simp add: pairwise_distances_def n)
    then show "?cd ! i = Num (Min ((\<lambda>c. euclid_spec (latent_proj ! i)
                     (centroid_spec d latent_proj cluster_labels c))
                  ` {c \<in> set cluster_labels. c \<noteq> - 1}))"
      by (simp only: nearest_centroid_row [OF l s i False])
  qed
  have "cluster_labels \<noteq> []" using False by (auto simp: unique_clusters_def)
  then have pos: "0 < n" using l n by (cases cluster_labels) auto
  have "\<not> (\<forall>i<n. ?cd ! i = PosInf)"
  proof
    assume "\<forall>i<n. ?cd ! i = PosInf"
    then have "?cd ! 0 = PosInf" using pos by blast
    moreover have "?cd ! 0 = Num (Min ((\<lambda>c. euclid_spec (latent_proj ! 0)
                     (centroid_spec d latent_proj cluster_labels c))
                  ` {c \<in> set cluster_labels. c \<noteq> - 1}))"
      using row pos by blast
    ultimately show False by simp
  qed
  then show ?thesis using r len row e by blast
qed


lemma in_ne: "x \<in> A \<Longrightarrow> A \<noteq> {}"
  by (rule notI) simp

theorem cluster_distance_nearest_centroid_witness:
  "length [0, 0, - 1 :: int] = length [[0], [2], [1 :: real]]
   \<and> has_shape 3 1 [[0], [2], [1]]
   \<and> cluster_distances [[0], [2], [1]] [0, 0, - 1] = Inr [Num 1, Num 1, Num 0]
   \<and> Min ((\<lambda>c. euclid_spec ([[0], [2], [1]] ! 2) (centroid_spec 1 [[0], [2], [1]] [0, 0, - 1] c))
           ` {c \<in> set [0, 0, - 1]. c \<noteq> - 1}) = 0
   \<and> length [- 1, - 1 :: int] = length [[0], [2 :: real]]
   \<and> has_shape 2 1 [[0], [2]]
   \<and> cluster_distances [[0], [2]] [- 1, - 1] = Inr [PosInf, PosInf]"
proof -
  let ?P = "[[0], [2], [1 :: real]]"
  let ?ls = "[0, 0, - 1 :: int]"
  have l: "length ?ls = length ?P" by simp
  have s: "has_shape 3 1 ?P" by (simp add: has_shape_def)
  have "(0::int) \<in> {c \<in> set ?ls. c \<noteq> - 1}" by simp
  then have ne: "{c \<in> set ?ls. c \<noteq> - 1} \<noteq> {}" by (rule in_ne)
  have u: "unique_clusters ?ls = [0]" by (simp add: unique_clusters_def)
  have m: "members ?P ?ls 0 = [[0], [2]]" by (simp add: members_def)
  have c: "mean_axis0 [[0], [2]] = [1]" by (simp add: mean_axis0_def ncols_def mean_def)
  have p: "pairwise_distances ?P [[1]] = [[1], [1], [0]]"
    by (simp add: pairwise_distances_def euclidean_def)
  have code: "cluster_distances ?P ?ls = Inr [Num 1, Num 1, Num 0]"
    unfolding cluster_distances_def Let_def u by (simp add: m c p)
  note th = cluster_distance_nearest_centroid [OF l s]
  from th obtain cd where
    1: "cluster_distances ?P ?ls = Inr cd" and
    2: "{c \<in> set ?ls. c \<noteq> - 1} \<noteq> {} \<longrightarrow>
         (\<forall>i<3. cd ! i = Num (Min ((\<lambda>c. euclid_spec (?P ! i) (centroid_spec 1 ?P ?ls c))
                  ` {c \<in> set ?ls. c \<noteq> - 1})))"
    by (elim exE conjE)
  have cd: "cd = [Num 1, Num 1, Num 0]" using 1 unfolding code by (rule sum.inject [THEN iffD1, symmetric])
  from 2 ne have 3: "\<forall>i<3. cd ! i = Num (Min ((\<lambda>c. euclid_spec (?P ! i) (centroid_spec 1 ?P ?ls c))
                  ` {c \<in> set ?ls. c \<noteq> - 1}))" by (rule mp)
  have lt: "(2::nat) < 3" by simp
  have "cd ! 2 = Num (Min ((\<lambda>c. euclid_spec (?P ! 2) (centroid_spec 1 ?P ?ls c))
                  ` {c \<in> set ?ls. c \<noteq> - 1}))"
    using 3 [rule_format, OF lt] .
  moreover have "cd ! 2 = Num 0" unfolding cd by simp
  ultimately have mn: "Min ((\<lambda>c. euclid_spec (?P ! 2) (centroid_spec 1 ?P ?ls c))
                  ` {c \<in> set ?ls. c \<noteq> - 1}) = 0"
    by (simp only: npfloat.inject)
  let ?P' = "[[0], [2 :: real]]"
  let ?ls' = "[- 1, - 1 :: int]"
  have l': "length ?ls' = length ?P'" by simp
  have s': "has_shape 2 1 ?P'" by (simp add: has_shape_def)
  have code': "cluster_distances ?P' ?ls' = Inr [PosInf, PosInf]"
    by (simp add: cluster_distances_def unique_clusters_def)
  show ?thesis using l s code mn l' s' code' by (intro conjI)
qed

subsection \<open>The fallback chain of the reduction\<close>

lemma reduce_dims_umap_ok:
  assumes "umap = Some fit" and "fit (min umap_components D) X = Inr p"
  shows "reduce_dims D umap pca X = (p, [InfoUMAP, OkUMAP])"
  using assms by (simp add: reduce_dims_def)

lemma reduce_dims_after_umap_failed:
  assumes "umap = None \<or> (\<exists>fit e. umap = Some fit \<and> fit (min umap_components D) X = Inl e)"
  shows "\<exists>printed. reduce_dims D umap pca X =
     (case pca (min pca_components D) X of
        Inr (q, explained) \<Rightarrow>
          (if explained = NaN
           then (X, printed @ [InfoPCA, WarnPCAFailed ''PCA explained variance is NaN''])
           else (q, printed @ [InfoPCA, OkPCA]))
      | Inl e \<Rightarrow> (X, printed @ [InfoPCA, WarnPCAFailed e]))"
  using assms by (auto simp: reduce_dims_def)

text \<open>
  Claim C5, as the script has it. The UMAP tier runs first, and what it returns is the
  clustering input as it is. When the library is missing or the call raises, the PCA
  tier runs with target width \<open>min pca_components D\<close>, which is at most the UMAP tier's
  \<open>min umap_components D\<close> and smaller when \<open>D\<close> exceeds \<open>pca_components\<close>; its result
  is the clustering input unless the call raises or the sum of the explained variance
  ratios is NaN, and then the standardized matrix is, unchanged. Every branch prints its
  line, and the stage returns a matrix in every case.
\<close>

theorem reduce_dims_fallback_chain:
  "(\<forall>fit p. umap = Some fit \<and> fit (min umap_components D) X = Inr p \<longrightarrow>
        reduce_dims D umap pca X = (p, [InfoUMAP, OkUMAP]))
   \<and> (umap = None \<or> (\<exists>fit e. umap = Some fit \<and> fit (min umap_components D) X = Inl e) \<longrightarrow>
        (\<forall>q explained. pca (min pca_components D) X = Inr (q, explained) \<and> explained \<noteq> NaN \<longrightarrow>
            fst (reduce_dims D umap pca X) = q
            \<and> OkPCA \<in> set (snd (reduce_dims D umap pca X)))
        \<and> ((\<exists>e. pca (min pca_components D) X = Inl e)
             \<or> (\<exists>q. pca (min pca_components D) X = Inr (q, NaN)) \<longrightarrow>
            fst (reduce_dims D umap pca X) = X
            \<and> (\<exists>m. WarnPCAFailed m \<in> set (snd (reduce_dims D umap pca X)))))
   \<and> min pca_components D \<le> min umap_components D
   \<and> (pca_components < D \<longrightarrow> min pca_components D < min umap_components D)"
proof -
  have a: "\<forall>fit p. umap = Some fit \<and> fit (min umap_components D) X = Inr p \<longrightarrow>
        reduce_dims D umap pca X = (p, [InfoUMAP, OkUMAP])"
    by (simp add: reduce_dims_umap_ok)
  have b: "umap = None \<or> (\<exists>fit e. umap = Some fit \<and> fit (min umap_components D) X = Inl e) \<longrightarrow>
        (\<forall>q explained. pca (min pca_components D) X = Inr (q, explained) \<and> explained \<noteq> NaN \<longrightarrow>
            fst (reduce_dims D umap pca X) = q
            \<and> OkPCA \<in> set (snd (reduce_dims D umap pca X)))
        \<and> ((\<exists>e. pca (min pca_components D) X = Inl e)
             \<or> (\<exists>q. pca (min pca_components D) X = Inr (q, NaN)) \<longrightarrow>
            fst (reduce_dims D umap pca X) = X
            \<and> (\<exists>m. WarnPCAFailed m \<in> set (snd (reduce_dims D umap pca X))))"
  proof
    assume f: "umap = None \<or> (\<exists>fit e. umap = Some fit \<and> fit (min umap_components D) X = Inl e)"
    from reduce_dims_after_umap_failed [OF f, of pca] obtain printed where
      r: "reduce_dims D umap pca X =
     (case pca (min pca_components D) X of
        Inr (q, explained) \<Rightarrow>
          (if explained = NaN
           then (X, printed @ [InfoPCA, WarnPCAFailed ''PCA explained variance is NaN''])
           else (q, printed @ [InfoPCA, OkPCA]))
      | Inl e \<Rightarrow> (X, printed @ [InfoPCA, WarnPCAFailed e]))" ..
    show "(\<forall>q explained. pca (min pca_components D) X = Inr (q, explained) \<and> explained \<noteq> NaN \<longrightarrow>
            fst (reduce_dims D umap pca X) = q
            \<and> OkPCA \<in> set (snd (reduce_dims D umap pca X)))
        \<and> ((\<exists>e. pca (min pca_components D) X = Inl e)
             \<or> (\<exists>q. pca (min pca_components D) X = Inr (q, NaN)) \<longrightarrow>
            fst (reduce_dims D umap pca X) = X
            \<and> (\<exists>m. WarnPCAFailed m \<in> set (snd (reduce_dims D umap pca X))))"
      unfolding r by auto
  qed
  have c: "min pca_components D \<le> min umap_components D"
    by (simp add: pca_components_def umap_components_def)
  have d: "pca_components < D \<longrightarrow> min pca_components D < min umap_components D"
    by (simp add: pca_components_def umap_components_def)
  show ?thesis using a b c d by (intro conjI)
qed

theorem reduce_dims_fallback_chain_witness:
  "reduce_dims 16 (Some (\<lambda>n X. Inr [[2]])) (\<lambda>n X. Inr ([[7]], Num 1)) [[1 :: real]]
     = ([[2]], [InfoUMAP, OkUMAP])
   \<and> fst (reduce_dims 16 (Some (\<lambda>n X. Inl ''no neighbours'')) (\<lambda>n X. Inr ([[7]], Num 1))
        [[1 :: real]]) = [[7]]
   \<and> fst (reduce_dims 16 None (\<lambda>n X. Inr ([[7]], NaN)) [[1 :: real]]) = [[1]]"
proof -
  let ?X = "[[1 :: real]]"
  let ?ok = "\<lambda>(n :: nat) (X :: real list list). (Inr [[2]] :: real list list raising)"
  let ?bad = "\<lambda>(n :: nat) (X :: real list list). (Inl ''no neighbours'' :: real list list raising)"
  let ?pca = "\<lambda>(n :: nat) (X :: real list list). (Inr ([[7]], Num 1) :: (real list list \<times> npfloat) raising)"
  let ?nan = "\<lambda>(n :: nat) (X :: real list list). (Inr ([[7]], NaN) :: (real list list \<times> npfloat) raising)"
  have 1: "reduce_dims 16 (Some ?ok) ?pca ?X = ([[2]], [InfoUMAP, OkUMAP])"
    using reduce_dims_fallback_chain [of "Some ?ok" 16 ?X ?pca] by simp
  have f: "Some ?bad = None \<or> (\<exists>fit e. Some ?bad = Some fit \<and> fit (min umap_components 16) ?X = Inl e)"
    by simp
  have "\<forall>q explained. ?pca (min pca_components 16) ?X = Inr (q, explained) \<and> explained \<noteq> NaN \<longrightarrow>
            fst (reduce_dims 16 (Some ?bad) ?pca ?X) = q
            \<and> OkPCA \<in> set (snd (reduce_dims 16 (Some ?bad) ?pca ?X))"
    using reduce_dims_fallback_chain [of "Some ?bad" 16 ?X ?pca] f by blast
  then have 2: "fst (reduce_dims 16 (Some ?bad) ?pca ?X) = [[7]]" by simp
  have g: "None = None \<or> (\<exists>fit e. None = Some fit \<and> fit (min umap_components 16) ?X = Inl e)"
    by simp
  have "(\<exists>e. ?nan (min pca_components 16) ?X = Inl e)
             \<or> (\<exists>q. ?nan (min pca_components 16) ?X = Inr (q, NaN)) \<longrightarrow>
            fst (reduce_dims 16 None ?nan ?X) = ?X
            \<and> (\<exists>m. WarnPCAFailed m \<in> set (snd (reduce_dims 16 None ?nan ?X)))"
    using reduce_dims_fallback_chain [of None 16 ?X ?nan] g by blast
  then have 3: "fst (reduce_dims 16 None ?nan ?X) = ?X" by simp
  show ?thesis using 1 2 3 by (intro conjI)
qed

text \<open>
  The NaN test belongs to the PCA tier alone. A UMAP tier that returns a matrix of NaN
  without raising is not followed by the PCA tier: the NaN matrix goes to the
  clusterer.
\<close>

theorem umap_nan_result_is_kept:
  "reduce_dims 16 (Some nan_umap) sound_pca [[Num 1]] = ([[NaN]], [InfoUMAP, OkUMAP])
   \<and> fst (reduce_dims 16 (Some nan_umap) sound_pca [[Num 1]]) \<noteq> [[Num 0]]
   \<and> InfoPCA \<notin> set (snd (reduce_dims 16 (Some nan_umap) sound_pca [[Num 1]]))"
  by (simp add: reduce_dims_def nan_umap_def sound_pca_def)

subsection \<open>The run and its tables\<close>

lemma align_inputs_take:
  "align_inputs read_ids embeddings =
     (take (min (length read_ids) (length embeddings)) read_ids,
      take (min (length read_ids) (length embeddings)) embeddings,
      if length read_ids \<noteq> length embeddings
      then [WarnTruncating (length read_ids) (length embeddings)] else [])"
  by (simp add: align_inputs_def Let_def)

lemma data_frame2_Inr:
  assumes "data_frame2 a b = Inr t"
  shows "length t = length a \<and> map fst t = a \<and> map snd t = b"
  using assms by (auto simp: data_frame2_def split: if_splits)

lemma data_frame3_Inr:
  assumes "data_frame3 a b c = Inr t"
  shows "length t = length a \<and> map fst t = a \<and> map (fst \<circ> snd) t = b
    \<and> map (snd \<circ> snd) t = c"
proof -
  have l: "length a = length b" "length b = length c" and t: "t = zip a (zip b c)"
    using assms by (auto simp: data_frame3_def split: if_splits)
  have 1: "map fst t = a" using l by (simp add: t)
  have "map snd t = zip b c" using l by (simp add: t)
  then have 2: "map (fst \<circ> snd) t = b" and 3: "map (snd \<circ> snd) t = c"
    using l map_fst_zip [of b c] map_snd_zip [of b c]
    by (simp_all flip: map_map)
  show ?thesis using 1 2 3 l by (simp add: t)
qed

lemma save_outputs_Inr:
  assumes "save_outputs read_ids cluster_labels recon_errors cluster_distance
             = Inr (clusters_df, novelty_df)"
  shows "length clusters_df = length read_ids \<and> map fst clusters_df = read_ids
    \<and> map snd clusters_df = cluster_labels
    \<and> length novelty_df = length read_ids \<and> map fst novelty_df = read_ids
    \<and> map (fst \<circ> snd) novelty_df = recon_errors
    \<and> map (snd \<circ> snd) novelty_df = cluster_distance"
proof -
  from assms have a: "data_frame2 read_ids cluster_labels = Inr clusters_df"
    and b: "data_frame3 read_ids recon_errors cluster_distance = Inr novelty_df"
    by (auto simp: save_outputs_def split: sum.splits)
  show ?thesis using data_frame2_Inr [OF a] data_frame3_Inr [OF b] by simp
qed

lemma main_Inr:
  assumes "main L train draw ids0 embeddings0 = Inr (clusters_df, novelty_df, printed)"
  shows "\<exists>v latent_proj log1 cluster_labels cluster_distance.
      concat (take (min (length ids0) (length embeddings0)) embeddings0) \<noteq> []
    \<and> train (take (min (length ids0) (length embeddings0)) embeddings0) = Inr v
    \<and> project_stage L
         (fst (latent_and_recon_errors v
            (take (min (length ids0) (length embeddings0)) embeddings0)
            (randn_like draw
               (snd (encode v (take (min (length ids0) (length embeddings0)) embeddings0))))))
        = Inr (latent_proj, log1)
    \<and> cluster_stage L latent_proj = Inr (cluster_labels, cluster_distance)
    \<and> save_outputs (take (min (length ids0) (length embeddings0)) ids0) cluster_labels
         (snd (latent_and_recon_errors v
            (take (min (length ids0) (length embeddings0)) embeddings0)
            (randn_like draw
               (snd (encode v (take (min (length ids0) (length embeddings0)) embeddings0))))))
         cluster_distance = Inr (clusters_df, novelty_df)
    \<and> printed = (if length ids0 \<noteq> length embeddings0
                  then [WarnTruncating (length ids0) (length embeddings0)] else []) @ log1"
  using assms
  unfolding main_def align_inputs_take
  by (simp split: if_splits sum.splits prod.splits)












lemma example_cluster_stage:
  "cluster_stage example_libs [[1], [2]] = Inr ([- 1, 0], [Num 1, Num 0])"
proof -
  have h: "hdbscan_lib example_libs hdbscan_min_cluster_size hdbscan_min_samples [[1], [2]]
      = Inr [- 1, 0]"
    by (simp add: example_libs_def)
  have u: "unique_clusters [- 1, 0] = [0]" by (simp add: unique_clusters_def)
  have m: "members [[1], [2]] [- 1, 0] 0 = [[2]]" by (simp add: members_def)
  have c0: "mean_axis0 [[2]] = [2]" by (simp add: mean_axis0_def ncols_def mean_def)
  have pd: "pairwise_distances [[1], [2]] [[2]] = [[1], [0]]"
    by (simp add: pairwise_distances_def euclidean_def)
  have cd: "cluster_distances [[1], [2]] [- 1, 0] = Inr [Num 1, Num 0]"
    unfolding cluster_distances_def Let_def u by (simp add: m c0 pd)
  show ?thesis by (simp add: cluster_stage_def h cd)
qed

lemma example_run:
  "main example_libs example_train example_draw [''a'', ''b'', ''c''] [[1], [2]]
     = Inr ([(''a'', - 1), (''b'', 0)], [(''a'', 9, Num 1), (''b'', 9, Num 0)],
            [WarnTruncating 3 2, InfoPCA, OkPCA])"
proof -
  have a: "align_inputs [''a'', ''b'', ''c''] [[1 :: real], [2]]
      = ([''a'', ''b''], [[1], [2]], [WarnTruncating 3 2])"
    by (simp add: align_inputs_def)
  have e: "encode example_vae [[1], [2]] = ([[1], [2]], [[0], [0]])"
    by (simp add: encode_def example_vae_def relu_def apply_linear_def affine_def ew1_def)
  have r: "randn_like example_draw [[0], [0]] = [[3], [3]]"
    by (simp add: randn_like_def example_draw_def upt_rec)
  have z: "reparameterize [[1], [2]] [[0], [0]] [[3], [3]] = [[4], [5]]"
    by (simp add: reparameterize_def ew1_def ew2_def clamp_def)
  have d: "decode example_vae [[4], [5]] = [[4], [5]]"
    by (simp add: decode_def example_vae_def relu_def apply_linear_def affine_def ew1_def)
  have l: "latent_and_recon_errors example_vae [[1], [2]] [[3], [3]] = ([[1], [2]], [9, 9])"
    by (simp add: latent_and_recon_errors_def e z d ew2_def mean_def)
  have p: "project_stage example_libs [[1], [2]] = Inr ([[1], [2]], [InfoPCA, OkPCA])"
    by (simp add: project_stage_def example_libs_def reduce_dims_def)
  note c = example_cluster_stage
  have s: "save_outputs [''a'', ''b''] [- 1, 0] [9, 9] [Num 1, Num 0]
      = Inr ([(''a'', - 1), (''b'', 0)], [(''a'', 9, Num 1), (''b'', 9, Num 0)])"
    by (simp add: save_outputs_def data_frame2_def data_frame3_def)
  show ?thesis
    unfolding main_def a by (simp add: example_train_def e r l p c s)
qed



lemma randn_like_shape: "has_shape n d X \<Longrightarrow> has_shape n d (randn_like draw X)"
  by (simp add: has_shape_def randn_like_def list_all_length)

lemma map_mean_sq:
  assumes "has_shape n d R" "has_shape n d X"
  shows "map mean (ew2 (\<lambda>r a. (r - a)\<^sup>2) R X) = map (\<lambda>i. mse_spec (R ! i) (X ! i)) [0..<n]"
proof (rule nth_equalityI)
  have s: "has_shape n d (ew2 (\<lambda>r a. (r - a)\<^sup>2) R X)" using assms by (rule has_shape_ew2)
  then have l: "length (ew2 (\<lambda>r a. (r - a)\<^sup>2) R X) = n" by (rule has_shape_length)
  show "length (map mean (ew2 (\<lambda>r a. (r - a)\<^sup>2) R X))
      = length (map (\<lambda>i. mse_spec (R ! i) (X ! i)) [0..<n])"
    by (simp add: l)
  fix i assume "i < length (map mean (ew2 (\<lambda>r a. (r - a)\<^sup>2) R X))"
  then have i: "i < n" by (simp add: l)
  show "map mean (ew2 (\<lambda>r a. (r - a)\<^sup>2) R X) ! i
      = map (\<lambda>i. mse_spec (R ! i) (X ! i)) [0..<n] ! i"
    using i l mean_sq_row [OF assms i] by simp
qed

text \<open>
  Claim C7. In a run that writes its tables, with the trained model \<open>v\<close> of the shapes of
  \<^verbatim>\<open>VAE.__init__\<close> and \<open>n\<close> reads of width \<open>D\<close>: one noise value is drawn per read and
  latent coordinate; the \<^verbatim>\<open>recon_error\<close> column of the novelty table is, read by read, the
  mean-squared error of the decoding of the latent sampled with that noise from the
  read's encoded mean and log-variance, against the read's embedding itself; and the
  labels of the cluster table are what the clusterer returns on the projection of the
  encoder's mean alone.
\<close>

theorem recon_error_sampled_latent_mean:
  assumes run: "main L train draw ids embeddings = Inr (clusters_df, novelty_df, printed)"
    and tr: "train (take (min (length ids) (length embeddings)) embeddings) = Inr v"
    and vs: "vae_shape D H Lt v"
    and xs: "has_shape n D (take (min (length ids) (length embeddings)) embeddings)"
  shows "has_shape n Lt
        (randn_like draw
           (snd (encode v (take (min (length ids) (length embeddings)) embeddings))))
    \<and> map (fst \<circ> snd) novelty_df =
        map (\<lambda>i. mse_spec
               (decode v
                  (reparameterize
                     (fst (encode v (take (min (length ids) (length embeddings)) embeddings)))
                     (snd (encode v (take (min (length ids) (length embeddings)) embeddings)))
                     (randn_like draw
                        (snd (encode v
                           (take (min (length ids) (length embeddings)) embeddings)))))
                ! i)
               (take (min (length ids) (length embeddings)) embeddings ! i))
          [0..<n]
    \<and> (\<exists>latent_proj log1 cluster_distance.
          project_stage L
            (fst (encode v (take (min (length ids) (length embeddings)) embeddings)))
            = Inr (latent_proj, log1)
        \<and> cluster_stage L latent_proj = Inr (map snd clusters_df, cluster_distance))"
proof -
  let ?X = "take (min (length ids) (length embeddings)) embeddings"
  let ?mu = "fst (encode v ?X)"
  let ?lv = "snd (encode v ?X)"
  let ?eps = "randn_like draw ?lv"
  let ?z = "reparameterize ?mu ?lv ?eps"
  let ?R = "decode v ?z"
  have n: "length ?X = n" using xs by (rule has_shape_length)
  have mu: "has_shape n Lt ?mu" using encode_shape(1) [OF vs, of ?X] by (simp only: n)
  have lv: "has_shape n Lt ?lv" using encode_shape(2) [OF vs, of ?X] by (simp only: n)
  have eps: "has_shape n Lt ?eps" using lv by (rule randn_like_shape)
  have z: "has_shape n Lt ?z" using mu lv eps by (rule reparameterize_shape)
  then have lz: "length ?z = n" by (rule has_shape_length)
  have R: "has_shape n D ?R" using decode_shape [OF vs, of ?z] by (simp only: lz)
  have lr: "latent_and_recon_errors v ?X ?eps
      = (?mu, map (\<lambda>i. mse_spec (?R ! i) (?X ! i)) [0..<n])"
    by (simp add: latent_and_recon_errors_def Let_def case_prod_beta map_mean_sq [OF R xs])
  from main_Inr [OF run] obtain v' latent_proj log1 cluster_labels cluster_distance where
    tr': "train ?X = Inr v'" and
    pr: "project_stage L (fst (latent_and_recon_errors v' ?X
            (randn_like draw (snd (encode v' ?X))))) = Inr (latent_proj, log1)" and
    cl: "cluster_stage L latent_proj = Inr (cluster_labels, cluster_distance)" and
    sv: "save_outputs (take (min (length ids) (length embeddings)) ids) cluster_labels
         (snd (latent_and_recon_errors v' ?X (randn_like draw (snd (encode v' ?X)))))
         cluster_distance = Inr (clusters_df, novelty_df)"
    by blast
  have v': "v' = v" using tr tr' by simp
  note t = save_outputs_Inr [OF sv [unfolded v' lr snd_conv]]
  have 1: "map (fst \<circ> snd) novelty_df = map (\<lambda>i. mse_spec (?R ! i) (?X ! i)) [0..<n]"
    using t by simp
  have 2: "map snd clusters_df = cluster_labels" using t by simp
  have 3: "project_stage L ?mu = Inr (latent_proj, log1)"
    using pr unfolding v' lr fst_conv .
  have 4: "cluster_stage L latent_proj = Inr (map snd clusters_df, cluster_distance)"
    using cl unfolding 2 .
  show ?thesis using eps 1 3 4 by blast
qed

theorem recon_error_sampled_latent_mean_witness:
  "main example_libs example_train example_draw [''a'', ''b'', ''c''] [[1], [2]]
     = Inr ([(''a'', - 1), (''b'', 0)], [(''a'', 9, Num 1), (''b'', 9, Num 0)],
            [WarnTruncating 3 2, InfoPCA, OkPCA])
   \<and> example_train (take (min (length [''a'', ''b'', ''c'']) (length [[1 :: real], [2]])) [[1], [2]])
       = Inr example_vae
   \<and> vae_shape 1 1 1 example_vae
   \<and> has_shape 2 1 (take (min (length [''a'', ''b'', ''c'']) (length [[1 :: real], [2]])) [[1], [2]])
   \<and> randn_like example_draw (snd (encode example_vae [[1], [2]])) = [[3], [3]]
   \<and> map (\<lambda>i. mse_spec
               (decode example_vae
                  (reparameterize (fst (encode example_vae [[1], [2]]))
                     (snd (encode example_vae [[1], [2]]))
                     (randn_like example_draw (snd (encode example_vae [[1], [2]]))))
                ! i)
               ([[1], [2]] ! i))
          [0..<2] = [9, 9]
   \<and> cluster_stage example_libs [[1], [2]] = Inr ([- 1, 0], [Num 1, Num 0])"
proof -
  have v: "vae_shape 1 1 1 example_vae"
    by (simp add: vae_shape_def linear_shape_def example_vae_def)
  have x: "has_shape 2 1
      (take (min (length [''a'', ''b'', ''c'']) (length [[1 :: real], [2]])) [[1], [2]])"
    by (simp add: has_shape_def)
  have t: "example_train
      (take (min (length [''a'', ''b'', ''c'']) (length [[1 :: real], [2]])) [[1], [2]])
        = Inr example_vae" by (simp add: example_train_def)
  note th = recon_error_sampled_latent_mean [OF example_run t v x]
  have e: "encode example_vae [[1], [2]] = ([[1], [2]], [[0], [0]])"
    by (simp add: encode_def example_vae_def relu_def apply_linear_def affine_def ew1_def)
  have r: "randn_like example_draw (snd (encode example_vae [[1], [2]])) = [[3], [3]]"
    by (simp add: e randn_like_def example_draw_def upt_rec)
  have m: "map (fst \<circ> snd) [(''a'', 9 :: real, Num 1), (''b'', 9, Num 0)] =
        map (\<lambda>i. mse_spec
               (decode example_vae
                  (reparameterize (fst (encode example_vae [[1], [2]]))
                     (snd (encode example_vae [[1], [2]]))
                     (randn_like example_draw (snd (encode example_vae [[1], [2]]))))
                ! i)
               ([[1], [2]] ! i))
          [0..<2]"
    using th by simp
  note cs = example_cluster_stage
  have "map (\<lambda>i. mse_spec
               (decode example_vae
                  (reparameterize (fst (encode example_vae [[1], [2]]))
                     (snd (encode example_vae [[1], [2]]))
                     (randn_like example_draw (snd (encode example_vae [[1], [2]]))))
                ! i)
               ([[1], [2]] ! i))
          [0..<2] = [9, 9]"
    using m by simp
  then show ?thesis using example_run t v x r cs by (intro conjI)
qed

end
